theory Spec2Isabelle
  imports Main
begin

section \<open>The submission form of Ripple AI (src/App.tsx)\<close>

text \<open>
  The component \<^verbatim>\<open>App\<close> holds four pieces of React state and one event handler,
  \<^verbatim>\<open>handleSubmit\<close>, which posts the two text fields to a fixed URL and writes the
  outcome into the status line. The handler is asynchronous: it runs up to the call of
  \<^verbatim>\<open>fetch\<close>, is suspended while the request is in flight, and resumes when the
  request settles. The model splits it at that point into \<open>handleSubmit_begin\<close> and
  \<open>handleSubmit_resume\<close>; what the network does in between is an input, the
  \<open>fetch_result\<close>.
\<close>

subsection \<open>JavaScript values\<close>

text \<open>
  The values the handler can meet: \<^verbatim>\<open>undefined\<close> and whatever \<^verbatim>\<open>response.json()\<close>
  yields. Numbers are IEEE doubles in JavaScript; the model leaves their type \<open>'n\<close> open
  and takes the two things the handler needs of them from the \<open>engine\<close> below.
  An object is the list of its own properties (keys distinct, as after parsing).
\<close>

datatype 'n jsval =
    Undefined
  | Null
  | Bool bool
  | Num 'n
  | Str string
  | Arr "'n jsval list"
  | Obj "(string \<times> 'n jsval) list"

text \<open>
  A thrown value, as the \<^verbatim>\<open>catch\<close> block tells them apart: an instance of
  \<^verbatim>\<open>Error\<close> with its \<^verbatim>\<open>message\<close>, or anything else.
\<close>

datatype thrown = ErrorObj string | NonError

text \<open>
  What the JavaScript engine decides and the source does not: the truth value of a
  number, the string conversion of a value that is not a string (which may throw), and
  the wording of the \<^verbatim>\<open>TypeError\<close> raised by reading a property of \<^verbatim>\<open>null\<close> or
  \<^verbatim>\<open>undefined\<close>.
\<close>

record 'n engine =
  num_truthy :: "'n \<Rightarrow> bool"
  to_string_other :: "'n jsval \<Rightarrow> thrown + string"
  null_read_message :: string
  undefined_read_message :: string

text \<open>\<^verbatim>\<open>ToBoolean\<close>, as used by \<^verbatim>\<open>!x\<close>, \<^verbatim>\<open>x || y\<close> and \<^verbatim>\<open>x && y\<close>.\<close>

fun truthy :: "'n engine \<Rightarrow> 'n jsval \<Rightarrow> bool" where
  "truthy eng Undefined = False"
| "truthy eng Null = False"
| "truthy eng (Bool b) = b"
| "truthy eng (Num n) = num_truthy eng n"
| "truthy eng (Str s) = (s \<noteq> [])"
| "truthy eng (Arr xs) = True"
| "truthy eng (Obj kvs) = True"

text \<open>\<^verbatim>\<open>ToString\<close>, as used by \<^verbatim>\<open>new Error(x)\<close>: a string is itself.\<close>

fun ToString :: "'n engine \<Rightarrow> 'n jsval \<Rightarrow> thrown + string" where
  "ToString eng (Str s) = Inr s"
| "ToString eng v = to_string_other eng v"

text \<open>
  The property read \<^verbatim>\<open>data.status\<close>. It throws a \<^verbatim>\<open>TypeError\<close> on \<^verbatim>\<open>null\<close> and
  \<^verbatim>\<open>undefined\<close>, finds an own property of an object, and is \<^verbatim>\<open>undefined\<close> on
  everything else (no prototype of a parsed value has a property of that name).
\<close>

fun read_status :: "'n engine \<Rightarrow> 'n jsval \<Rightarrow> thrown + 'n jsval" where
  "read_status eng Undefined = Inl (ErrorObj (undefined_read_message eng))"
| "read_status eng Null = Inl (ErrorObj (null_read_message eng))"
| "read_status eng (Obj kvs) =
     Inr (case map_of kvs ''status'' of None \<Rightarrow> Undefined | Some v \<Rightarrow> v)"
| "read_status eng v = Inr Undefined"

subsection \<open>The request body: \<^verbatim>\<open>JSON.stringify\<close> on an object of strings\<close>

text \<open>
  Strings are byte strings (the UTF-8 encoding of the text). \<^verbatim>\<open>JSON.stringify\<close>
  escapes the double quote, the backslash and the control characters below U+0020, and
  copies every other character.
\<close>

definition dquote :: char where
  "dquote = CHR 0x22"

definition backslash :: char where
  "backslash = CHR 0x5C"

definition hex_digit :: "nat \<Rightarrow> char" where
  "hex_digit d = ''0123456789abcdef'' ! (d mod 16)"

definition quote_char :: "char \<Rightarrow> string" where
  "quote_char c =
     (if c = CHR 0x08 then [backslash, CHR ''b'']
      else if c = CHR 0x09 then [backslash, CHR ''t'']
      else if c = CHR 0x0A then [backslash, CHR ''n'']
      else if c = CHR 0x0C then [backslash, CHR ''f'']
      else if c = CHR 0x0D then [backslash, CHR ''r'']
      else if c = dquote then [backslash, dquote]
      else if c = backslash then [backslash, backslash]
      else if (of_char c :: nat) < 32 then
        [backslash, CHR ''u'', CHR ''0'', CHR ''0'',
         hex_digit (of_char c div 16), hex_digit (of_char c mod 16)]
      else [c])"

definition json_quote :: "string \<Rightarrow> string" where
  "json_quote s = [dquote] @ concat (map quote_char s) @ [dquote]"

fun json_members :: "(string \<times> string) list \<Rightarrow> string" where
  "json_members [] = []"
| "json_members [(k, v)] = json_quote k @ '':'' @ json_quote v"
| "json_members ((k, v) # kvs) = json_quote k @ '':'' @ json_quote v @ '','' @ json_members kvs"

text \<open>\<^verbatim>\<open>JSON.stringify\<close> on an object whose properties, in order, hold strings.\<close>

definition JSON_stringify :: "(string \<times> string) list \<Rightarrow> string" where
  "JSON_stringify props = ''{'' @ json_members props @ ''}''"

subsection \<open>Requests and their results\<close>

record request =
  url :: string
  http_method :: string
  headers :: "(string \<times> string) list"
  body :: string

text \<open>
  Of a response the handler reads \<^verbatim>\<open>response.ok\<close> and awaits \<^verbatim>\<open>response.json()\<close>,
  which yields the parsed body or throws.
\<close>

record 'n response =
  ok :: bool
  json :: "thrown + 'n jsval"

text \<open>\<^verbatim>\<open>await fetch(...)\<close> throws (\<open>Inl\<close>) or yields a response (\<open>Inr\<close>).\<close>

type_synonym 'n fetch_result = "thrown + 'n response"

subsection \<open>The component state\<close>

text \<open>
  The four \<^verbatim>\<open>useState\<close> cells. The two text fields only ever receive strings;
  \<^verbatim>\<open>status\<close> receives \<^verbatim>\<open>data.status\<close>, which is whatever the server sent.
\<close>

record 'n state =
  username :: string
  message :: string
  isLoading :: bool
  status :: "'n jsval"

definition initial_state :: "'n state" where
  "initial_state = \<lparr>username = [], message = [], isLoading = False, status = Str []\<rparr>"

definition API_URL :: string where
  "API_URL = ''http://localhost:5000/send-dm''"

subsection \<open>\<^verbatim>\<open>handleSubmit\<close>\<close>

text \<open>
  Up to the \<^verbatim>\<open>await\<close>: the guard returns at once (\<open>None\<close>) on an empty message or
  while loading; otherwise the two setters run and \<^verbatim>\<open>fetch\<close> is called with the request.
  (\<^verbatim>\<open>e.preventDefault()\<close> touches no state of the component.)
\<close>

definition handleSubmit_begin :: "'n state \<Rightarrow> ('n state \<times> request) option" where
  "handleSubmit_begin s =
     (if message s = [] \<or> isLoading s then None
      else Some
        (s\<lparr>isLoading := True, status := Str ''Sending...''\<rparr>,
         \<lparr>url = API_URL,
          http_method = ''POST'',
          headers = [(''Content-Type'', ''application/json'')],
          body = JSON_stringify [(''username'', username s), (''message'', message s)]\<rparr>))"

text \<open>
  The \<^verbatim>\<open>try\<close> block after the \<^verbatim>\<open>fetch\<close> call. \<open>Inl e\<close>: the block threw \<open>e\<close>
  before any setter ran. \<open>Inr v\<close>: the block ran to its end, having called
  \<^verbatim>\<open>setStatus(v)\<close> and \<^verbatim>\<open>setMessage('')\<close>.
\<close>

definition try_block :: "'n engine \<Rightarrow> 'n fetch_result \<Rightarrow> thrown + 'n jsval" where
  "try_block eng res =
     (case res of
        Inl e \<Rightarrow> Inl e
      | Inr response \<Rightarrow>
          (case json response of
             Inl e \<Rightarrow> Inl e
           | Inr data \<Rightarrow>
               if \<not> ok response then
                 (case read_status eng data of
                    Inl e \<Rightarrow> Inl e
                  | Inr st \<Rightarrow>
                      (case ToString eng (if truthy eng st then st else Str ''An error occurred.'') of
                         Inl e \<Rightarrow> Inl e
                       | Inr msg \<Rightarrow> Inl (ErrorObj msg)))
               else read_status eng data))"

text \<open>The \<^verbatim>\<open>catch\<close> block's argument of \<^verbatim>\<open>setStatus\<close>.\<close>

fun catch_status :: "thrown \<Rightarrow> 'n jsval" where
  "catch_status (ErrorObj msg) = Str (''Error: '' @ msg)"
| "catch_status NonError = Str ''An unknown error occurred.''"

text \<open>From the moment the request settles to the end of the handler, \<^verbatim>\<open>finally\<close> included.\<close>

definition handleSubmit_resume :: "'n engine \<Rightarrow> 'n fetch_result \<Rightarrow> 'n state \<Rightarrow> 'n state" where
  "handleSubmit_resume eng res s =
     (let s' = (case try_block eng res of
                  Inr v \<Rightarrow> s\<lparr>status := v, message := []\<rparr>
                | Inl e \<Rightarrow> s\<lparr>status := catch_status e\<rparr>)
      in s'\<lparr>isLoading := False\<rparr>)"

text \<open>
  One whole run of the handler on a request that settles with \<open>res\<close>: the state at the
  end and the requests sent.
\<close>

definition handleSubmit :: "'n engine \<Rightarrow> 'n fetch_result \<Rightarrow> 'n state \<Rightarrow> 'n state \<times> request list" where
  "handleSubmit eng res s =
     (case handleSubmit_begin s of
        None \<Rightarrow> (s, [])
      | Some (s1, req) \<Rightarrow> (handleSubmit_resume eng res s1, [req]))"

subsection \<open>What is rendered\<close>

text \<open>
  The status line is \<^verbatim>\<open>{status && <p className="statusMessage">{status}</p>}\<close>: for
  a status that counts as true, a paragraph with the status as its child.
  \<open>statusMessage\<close> is that child, if there is a paragraph.
\<close>

definition statusMessage :: "'n engine \<Rightarrow> 'n state \<Rightarrow> 'n jsval option" where
  "statusMessage eng s = (if truthy eng (status s) then Some (status s) else None)"




subsection \<open>The page as a transition system\<close>

text \<open>
  The page between events: the component state and the requests sent and not yet
  settled. An event is a submit of the form, the settling of a request with some
  result, or a keystroke in one of the two inputs. Each event meets the state the one
  before it left (React commits the updates of a handler before the next event is
  dispatched). The inputs carry \<^verbatim>\<open>disabled={isLoading}\<close>, so a keystroke while
  loading changes nothing; a request can only settle if one is in flight.
\<close>

record 'n page =
  view :: "'n state"
  in_flight :: "request list"

datatype 'n event =
    Submit
  | Settle "'n fetch_result"
  | ChangeUsername string
  | ChangeMessage string

definition initial_page :: "'n page" where
  "initial_page = \<lparr>view = initial_state, in_flight = []\<rparr>"

fun step :: "'n engine \<Rightarrow> 'n page \<Rightarrow> 'n event \<Rightarrow> 'n page" where
  "step eng p Submit =
     (case handleSubmit_begin (view p) of
        None \<Rightarrow> p
      | Some (s1, req) \<Rightarrow> p\<lparr>view := s1, in_flight := in_flight p @ [req]\<rparr>)"
| "step eng p (Settle res) =
     (case in_flight p of
        [] \<Rightarrow> p
      | req # rest \<Rightarrow> p\<lparr>view := handleSubmit_resume eng res (view p), in_flight := rest\<rparr>)"
| "step eng p (ChangeUsername v) =
     (if isLoading (view p) then p else p\<lparr>view := (view p)\<lparr>username := v\<rparr>\<rparr>)"
| "step eng p (ChangeMessage v) =
     (if isLoading (view p) then p else p\<lparr>view := (view p)\<lparr>message := v\<rparr>\<rparr>)"

definition run :: "'n engine \<Rightarrow> 'n event list \<Rightarrow> 'n page" where
  "run eng es = foldl (step eng) initial_page es"

text \<open>The in-flight flag counts the requests in flight.\<close>

definition flag_counts_requests :: "'n page \<Rightarrow> bool" where
  "flag_counts_requests p = (length (in_flight p) = (if isLoading (view p) then 1 else 0))"

subsection \<open>An engine and a state for concrete runs\<close>

text \<open>
  One engine to run the model on: integers for numbers, printed in decimal; an array
  prints its elements joined by commas, \<^verbatim>\<open>null\<close> as nothing; an object prints as
  \<^verbatim>\<open>[object Object]\<close> unless it has a property \<^verbatim>\<open>toString\<close> of its own, which
  no parsed value can call.
\<close>

fun show_nat :: "nat \<Rightarrow> string" where
  "show_nat n =
     (if n < 10 then [''0123456789'' ! n]
      else show_nat (n div 10) @ [''0123456789'' ! (n mod 10)])"

declare show_nat.simps [simp del]

definition show_int :: "int \<Rightarrow> string" where
  "show_int i = (if i < 0 then ''-'' @ show_nat (nat (- i)) else show_nat (nat i))"

fun example_to_string :: "int jsval \<Rightarrow> thrown + string"
  and example_join :: "int jsval list \<Rightarrow> thrown + string" where
  "example_to_string Undefined = Inr ''undefined''"
| "example_to_string Null = Inr ''null''"
| "example_to_string (Bool b) = Inr (if b then ''true'' else ''false'')"
| "example_to_string (Num n) = Inr (show_int n)"
| "example_to_string (Str s) = Inr s"
| "example_to_string (Arr xs) = example_join xs"
| "example_to_string (Obj kvs) =
     (if map_of kvs ''toString'' = None then Inr ''[object Object]''
      else Inl (ErrorObj ''Cannot convert object to primitive value''))"
| "example_join [] = Inr []"
| "example_join (x # xs) =
     (case (if x = Undefined \<or> x = Null then Inr [] else example_to_string x) of
        Inl e \<Rightarrow> Inl e
      | Inr a \<Rightarrow>
          if xs = [] then Inr a
          else (case example_join xs of Inl e \<Rightarrow> Inl e | Inr b \<Rightarrow> Inr (a @ '','' @ b)))"

definition example_engine :: "int engine" where
  "example_engine =
     \<lparr>num_truthy = (\<lambda>n. n \<noteq> 0),
      to_string_other = example_to_string,
      null_read_message = ''data is null'',
      undefined_read_message = ''data is undefined''\<rparr>"

definition example_state :: "int state" where
  "example_state =
     \<lparr>username = ''bob'', message = ''hi'', isLoading = False, status = Str []\<rparr>"

section \<open>Properties\<close>

subsection \<open>Passing the guard\<close>

lemma begin_passes:
  "message s \<noteq> [] \<Longrightarrow> \<not> isLoading s \<Longrightarrow>
   handleSubmit_begin s =
     Some (s\<lparr>isLoading := True, status := Str ''Sending...''\<rparr>,
           \<lparr>url = API_URL, http_method = ''POST'',
            headers = [(''Content-Type'', ''application/json'')],
            body = JSON_stringify [(''username'', username s), (''message'', message s)]\<rparr>)"
  by (simp add: handleSubmit_begin_def)

lemma handleSubmit_passes:
  "message s \<noteq> [] \<Longrightarrow> \<not> isLoading s \<Longrightarrow>
   handleSubmit eng res s =
     (handleSubmit_resume eng res (s\<lparr>isLoading := True, status := Str ''Sending...''\<rparr>),
      [\<lparr>url = API_URL, http_method = ''POST'',
        headers = [(''Content-Type'', ''application/json'')],
        body = JSON_stringify [(''username'', username s), (''message'', message s)]\<rparr>])"
  by (simp add: handleSubmit_def begin_passes)

lemma body_text:
  "JSON_stringify [(''username'', u), (''message'', m)] =
   ''{\"username\":'' @ json_quote u @ '',\"message\":'' @ json_quote m @ ''}''"
  by (simp add: JSON_stringify_def json_quote_def quote_char_def dquote_def backslash_def)

subsection \<open>Outcomes of a submission\<close>

text \<open>
  C1. When the response is successful and its body is an object with a \<open>status\<close>
  field, the status becomes that field's value as the server sent it, the message field
  becomes the empty string and the identifier field keeps its value; a value that
  counts as true, such as the string \<open>Sent!\<close>, is what the status paragraph shows.
\<close>

theorem success_shows_status:
  assumes "message s \<noteq> []" and "\<not> isLoading s"
    and "map_of kvs ''status'' = Some v"
  shows "let s' = fst (handleSubmit eng (Inr \<lparr>ok = True, json = Inr (Obj kvs)\<rparr>) s)
         in status s' = v \<and> message s' = [] \<and> username s' = username s
            \<and> statusMessage eng s' = (if truthy eng v then Some v else None)"
  using assms
  by (simp add: handleSubmit_passes handleSubmit_resume_def try_block_def statusMessage_def)

theorem success_shows_status_witness:
  "message example_state \<noteq> [] \<and> \<not> isLoading example_state
   \<and> map_of [(''status'', Str ''Sent!'')] ''status'' = Some (Str ''Sent!'')
   \<and> (let s' = fst (handleSubmit example_engine
                     (Inr \<lparr>ok = True, json = Inr (Obj [(''status'', Str ''Sent!'')])\<rparr>)
                     example_state)
       in status s' = Str ''Sent!'' \<and> message s' = [] \<and> username s' = ''bob''
          \<and> statusMessage example_engine s' = Some (Str ''Sent!''))"
  using success_shows_status [of example_state "[(''status'', Str ''Sent!'')]" "Str ''Sent!''"
      example_engine]
  by (simp add: example_state_def Let_def)

text \<open>
  C2, as the code has it. When the response is not successful and its body is an object
  whose \<open>status\<close> field is a non-empty string, the status becomes \<open>Error: \<close> followed
  by that string; when the field is absent or is the empty string, the status becomes
  \<open>Error: An error occurred.\<close>. Either way the message and identifier fields keep
  their values.
\<close>

theorem http_failure_status:
  assumes "message s \<noteq> []" and "\<not> isLoading s"
    and "map_of kvs ''status'' = fld" and "fld = None \<or> fld = Some (Str st)"
  shows "let s' = fst (handleSubmit eng (Inr \<lparr>ok = False, json = Inr (Obj kvs)\<rparr>) s);
             shown = ''Error: '' @ (if fld = None \<or> st = [] then ''An error occurred.'' else st)
         in status s' = Str shown \<and> message s' = message s \<and> username s' = username s
            \<and> statusMessage eng s' = Some (Str shown)"
  using assms
  by (auto simp: handleSubmit_passes handleSubmit_resume_def try_block_def statusMessage_def)

theorem http_failure_status_witness:
  "message example_state \<noteq> [] \<and> \<not> isLoading example_state
   \<and> map_of [(''status'', Str ''Rate limited'')] ''status'' = Some (Str ''Rate limited'')
   \<and> (let s' = fst (handleSubmit example_engine
                     (Inr \<lparr>ok = False, json = Inr (Obj [(''status'', Str ''Rate limited'')])\<rparr>)
                     example_state)
       in status s' = Str ''Error: Rate limited'' \<and> message s' = ''hi'' \<and> username s' = ''bob''
          \<and> statusMessage example_engine s' = Some (Str ''Error: Rate limited''))"
  using http_failure_status [of example_state "[(''status'', Str ''Rate limited'')]"
      "Some (Str ''Rate limited'')" "''Rate limited''" example_engine]
  by (simp add: example_state_def Let_def)

text \<open>
  The claim as written fails on a \<open>status\<close> field that is the empty string: the status
  is not \<open>Error: \<close> followed by the empty string.
\<close>

theorem http_failure_status_counterexample:
  "status (fst (handleSubmit example_engine
                  (Inr \<lparr>ok = False, json = Inr (Obj [(''status'', Str '''')])\<rparr>)
                  example_state))
   \<noteq> Str (''Error: '' @ '''')"
  by (simp add: example_state_def handleSubmit_def handleSubmit_begin_def
      handleSubmit_resume_def try_block_def)

text \<open>
  A \<open>status\<close> field that is not a string goes through the engine's conversion: with
  the engine above, the number 429 is shown as \<open>Error: 429\<close>, the number 0 (which
  counts as false) as the fallback text.
\<close>

lemma http_failure_number_example:
  "status (fst (handleSubmit example_engine
                  (Inr \<lparr>ok = False, json = Inr (Obj [(''status'', Num 429)])\<rparr>)
                  example_state))
     = Str ''Error: 429''
   \<and> status (fst (handleSubmit example_engine
                  (Inr \<lparr>ok = False, json = Inr (Obj [(''status'', Num 0)])\<rparr>)
                  example_state))
     = Str ''Error: An error occurred.''"
  by (simp add: example_state_def example_engine_def handleSubmit_def handleSubmit_begin_def
      handleSubmit_resume_def try_block_def show_int_def show_nat.simps)

text \<open>
  C3. When \<^verbatim>\<open>fetch\<close> throws, or the response arrives and reading its body throws,
  the status becomes \<open>Error: \<close> followed by the message of the thrown value if that is
  an \<^verbatim>\<open>Error\<close> object, and \<open>An unknown error occurred.\<close> if it is anything else.
\<close>

theorem thrown_exception_status:
  assumes "message s \<noteq> []" and "\<not> isLoading s"
    and "res = Inl e \<or> res = Inr \<lparr>ok = b, json = Inl e\<rparr>"
  shows "let s' = fst (handleSubmit eng res s);
             shown = (case e of ErrorObj msg \<Rightarrow> ''Error: '' @ msg
                       | NonError \<Rightarrow> ''An unknown error occurred.'')
         in status s' = Str shown \<and> statusMessage eng s' = Some (Str shown)"
  using assms
  by (auto simp: handleSubmit_passes handleSubmit_resume_def try_block_def statusMessage_def
           split: thrown.splits)

theorem thrown_exception_status_witness:
  "message example_state \<noteq> [] \<and> \<not> isLoading example_state
   \<and> status (fst (handleSubmit example_engine (Inl (ErrorObj ''Failed to fetch'')) example_state))
       = Str ''Error: Failed to fetch''
   \<and> status (fst (handleSubmit example_engine (Inr \<lparr>ok = True, json = Inl NonError\<rparr>)
                     example_state))
       = Str ''An unknown error occurred.''"
  using thrown_exception_status [of example_state "Inl (ErrorObj ''Failed to fetch'')"
      "ErrorObj ''Failed to fetch''" True example_engine]
    thrown_exception_status [of example_state "Inr \<lparr>ok = True, json = Inl NonError\<rparr>"
      NonError True example_engine]
  by (simp add: example_state_def Let_def)

subsection \<open>The guard\<close>

text \<open>
  C4. A submit with an empty message field sends nothing and leaves the whole state
  (status text, message, identifier and in-flight flag) as it was.
\<close>

theorem empty_message_no_request:
  "message s = [] \<Longrightarrow> handleSubmit eng res s = (s, [])"
  by (simp add: handleSubmit_def handleSubmit_begin_def)

theorem empty_message_no_request_witness:
  "message (example_state\<lparr>message := []\<rparr>) = []
   \<and> handleSubmit example_engine (Inl NonError) (example_state\<lparr>message := []\<rparr>)
       = (example_state\<lparr>message := []\<rparr>, [])"
  using empty_message_no_request [of "example_state\<lparr>message := []\<rparr>" example_engine "Inl NonError"]
  by simp

text \<open>The flag counts the requests in flight in every page a run can reach.\<close>

lemma flag_counts_requests_initial: "flag_counts_requests initial_page"
  by (simp add: flag_counts_requests_def initial_page_def initial_state_def)

lemma flag_counts_requests_step:
  "flag_counts_requests p \<Longrightarrow> flag_counts_requests (step eng p ev)"
  by (cases ev)
     (auto simp: flag_counts_requests_def handleSubmit_begin_def handleSubmit_resume_def Let_def
           split: list.splits if_splits)

lemma flag_counts_requests_foldl:
  "flag_counts_requests p \<Longrightarrow> flag_counts_requests (foldl (step eng) p es)"
  by (induction es arbitrary: p) (simp_all add: flag_counts_requests_step)

lemma flag_counts_requests_run: "flag_counts_requests (run eng es)"
  unfolding run_def by (rule flag_counts_requests_foldl [OF flag_counts_requests_initial])

text \<open>
  C5. A submit while the in-flight flag is set sends nothing and leaves the state as it
  was, in one run of the handler and as an event of the page; and whatever events the
  page goes through from its initial state, at most one request is in flight.
\<close>

theorem in_flight_gate:
  "(isLoading s \<longrightarrow> handleSubmit eng res s = (s, []))
   \<and> (isLoading (view p) \<longrightarrow> step eng p Submit = p)
   \<and> length (in_flight (run eng es)) \<le> 1"
  using flag_counts_requests_run [of eng es]
  by (simp add: handleSubmit_def handleSubmit_begin_def flag_counts_requests_def split: if_splits)

theorem in_flight_gate_witness:
  "isLoading (example_state\<lparr>isLoading := True\<rparr>)
   \<and> handleSubmit example_engine (Inl NonError) (example_state\<lparr>isLoading := True\<rparr>)
       = (example_state\<lparr>isLoading := True\<rparr>, [])
   \<and> isLoading (view (run example_engine [ChangeMessage ''hi'', Submit]))
   \<and> step example_engine (run example_engine [ChangeMessage ''hi'', Submit]) Submit
       = run example_engine [ChangeMessage ''hi'', Submit]
   \<and> length (in_flight (run example_engine [ChangeMessage ''hi'', Submit, Submit])) \<le> 1"
  using in_flight_gate [of "example_state\<lparr>isLoading := True\<rparr>" example_engine "Inl NonError"
      "run example_engine [ChangeMessage ''hi'', Submit]" "[ChangeMessage ''hi'', Submit, Submit]"]
  by (simp add: run_def initial_page_def initial_state_def handleSubmit_begin_def)




subsection \<open>The request\<close>

text \<open>
  C7. A submission that passes the guard sends exactly one request: a POST to
  \<open>http://localhost:5000/send-dm\<close> with the one header
  \<open>Content-Type: application/json\<close>, whose body is the JSON object of the two fields
  \<open>username\<close> and \<open>message\<close>, in this order, holding the identifier and the message
  as JSON strings.
\<close>

theorem one_post_request:
  assumes "message s \<noteq> []" and "\<not> isLoading s"
  shows "snd (handleSubmit eng res s) =
     [\<lparr>url = ''http://localhost:5000/send-dm'',
       http_method = ''POST'',
       headers = [(''Content-Type'', ''application/json'')],
       body = ''{\"username\":'' @ json_quote (username s)
              @ '',\"message\":'' @ json_quote (message s) @ ''}''\<rparr>]"
proof -
  obtain s1 req where issued: "handleSubmit_begin s = Some (s1, req)"
    and req: "req = \<lparr>url = API_URL, http_method = ''POST'',
                     headers = [(''Content-Type'', ''application/json'')],
                     body = JSON_stringify [(''username'', username s), (''message'', message s)]\<rparr>"
    using assms by (simp add: begin_passes)
  have "snd (handleSubmit eng res s) = [req]"
    by (simp add: handleSubmit_def issued)
  then show ?thesis
    by (simp add: req body_text API_URL_def)
qed

theorem one_post_request_witness:
  "message example_state \<noteq> [] \<and> \<not> isLoading example_state
   \<and> snd (handleSubmit example_engine (Inl NonError) example_state) =
     [\<lparr>url = ''http://localhost:5000/send-dm'',
       http_method = ''POST'',
       headers = [(''Content-Type'', ''application/json'')],
       body = ''{\"username\":\"bob\",\"message\":\"hi\"}''\<rparr>]"
  using one_post_request [of example_state example_engine "Inl NonError"]
  by (simp add: example_state_def json_quote_def quote_char_def dquote_def backslash_def)

text \<open>
  C8, as the code has it. A submission that passes the guard sets the status to
  \<open>Sending...\<close> (and the in-flight flag) before the request is in flight, and at the
  end the status is the value the response's handling gives it: the \<open>status\<close> field read
  from the body, or the error text.
\<close>

theorem sending_then_overwritten:
  assumes "message s \<noteq> []" and "\<not> isLoading s"
  shows "map_option fst (handleSubmit_begin s)
           = Some (s\<lparr>isLoading := True, status := Str ''Sending...''\<rparr>)
         \<and> status (fst (handleSubmit eng res s))
           = (case try_block eng res of Inr v \<Rightarrow> v | Inl e \<Rightarrow> catch_status e)"
  using assms
  by (simp add: begin_passes handleSubmit_passes handleSubmit_resume_def split: sum.splits)

theorem sending_then_overwritten_witness:
  "message example_state \<noteq> [] \<and> \<not> isLoading example_state
   \<and> map_option fst (handleSubmit_begin example_state)
       = Some \<lparr>username = ''bob'', message = ''hi'', isLoading = True, status = Str ''Sending...''\<rparr>
   \<and> status (fst (handleSubmit example_engine
                     (Inr \<lparr>ok = True, json = Inr (Obj [(''status'', Str ''Sent!'')])\<rparr>)
                     example_state))
       = Str ''Sent!''"
  using sending_then_overwritten [of example_state example_engine
      "Inr \<lparr>ok = True, json = Inr (Obj [(''status'', Str ''Sent!'')])\<rparr>"]
  by (simp add: example_state_def try_block_def)

text \<open>The claim as written names the text \<open>sending\<close>; the handler does not set that.\<close>

theorem sending_literal_counterexample:
  "map_option (status \<circ> fst) (handleSubmit_begin example_state) \<noteq> Some (Str ''sending'')"
  by (simp add: example_state_def handleSubmit_begin_def)

text \<open>
  C9. When reading the body throws, the \<^verbatim>\<open>try\<close> block throws that value whether
  the response is successful or not: \<^verbatim>\<open>response.ok\<close> and the body's \<open>status\<close> field
  play no part, and for an \<^verbatim>\<open>Error\<close> object, as a failed parse throws, the status
  is \<open>Error: \<close> followed by its message.
\<close>

theorem parse_failure_before_ok_check:
  "try_block eng (Inr \<lparr>ok = b, json = Inl e\<rparr>) = Inl e
   \<and> handleSubmit_resume eng (Inr \<lparr>ok = b, json = Inl e\<rparr>) s
       = handleSubmit_resume eng (Inr \<lparr>ok = \<not> b, json = Inl e\<rparr>) s
   \<and> handleSubmit_resume eng (Inr \<lparr>ok = False, json = Inl (ErrorObj msg)\<rparr>) s
       = s\<lparr>status := Str (''Error: '' @ msg), isLoading := False\<rparr>"
proof -
  have thrown: "try_block eng (Inr \<lparr>ok = c, json = Inl x\<rparr>) = Inl x" for c x
    by (simp add: try_block_def)
  have caught: "handleSubmit_resume eng (Inr \<lparr>ok = c, json = Inl x\<rparr>) s
                  = s\<lparr>status := catch_status x, isLoading := False\<rparr>" for c x
    by (simp add: handleSubmit_resume_def thrown)
  show ?thesis
    by (simp add: thrown caught)
qed

text \<open>
  C10. An empty identifier field does not hold a submission back: with a non-empty
  message and no request in flight the request is sent, and its body holds
  \<open>"username":""\<close>.
\<close>

theorem empty_username_still_sent:
  "message s \<noteq> [] \<Longrightarrow> \<not> isLoading s \<Longrightarrow> username s = [] \<Longrightarrow>
   map (\<lambda>r. (url r, http_method r, body r)) (snd (handleSubmit eng res s)) =
     [(''http://localhost:5000/send-dm'', ''POST'',
       ''{\"username\":\"\",\"message\":'' @ json_quote (message s) @ ''}'')]"
  by (simp add: handleSubmit_passes body_text API_URL_def json_quote_def dquote_def)

theorem empty_username_still_sent_witness:
  "message (example_state\<lparr>username := []\<rparr>) \<noteq> []
   \<and> \<not> isLoading (example_state\<lparr>username := []\<rparr>)
   \<and> username (example_state\<lparr>username := []\<rparr>) = []
   \<and> map (\<lambda>r. (url r, http_method r, body r))
        (snd (handleSubmit example_engine (Inl NonError) (example_state\<lparr>username := []\<rparr>))) =
     [(''http://localhost:5000/send-dm'', ''POST'', ''{\"username\":\"\",\"message\":\"hi\"}'')]"
  using empty_username_still_sent [of "example_state\<lparr>username := []\<rparr>" example_engine "Inl NonError"]
  by (simp add: example_state_def json_quote_def quote_char_def dquote_def backslash_def)

end
